theory Spec2Isabelle
  imports Complex_Main
begin

section \<open>Values exchanged with the travel-data service\<close>

text \<open>
  The program is Python; what the Amadeus client hands back in \<open>response.data\<close> is parsed
  JSON, so every value read from a response is dynamically typed. \<open>JObj\<close> holds the items
  of a dict (looked up with \<open>map_of\<close>), \<open>JArr\<close> a list. Floats are modelled by their
  rational value: the program only tests them for truth (non-zero) and formats them.
\<close>

datatype json =
    JNull
  | JBool bool
  | JInt int
  | JFloat rat
  | JStr string
  | JArr "json list"
  | JObj "(string \<times> json) list"

text \<open>The exceptions the modelled code can meet. \<open>ResponseError\<close> is the client's own
  error class; the others are the built-in ones raised by subscripting and attribute access;
  \<open>OtherError\<close> is any further \<open>Exception\<close> a call may raise.\<close>

datatype exn = ResponseError | KeyError | IndexError | TypeError | AttributeError | OtherError

definition try_bind :: "exn + 'a \<Rightarrow> ('a \<Rightarrow> exn + 'b) \<Rightarrow> exn + 'b" where
  "try_bind m f = (case m of Inl e \<Rightarrow> Inl e | Inr v \<Rightarrow> f v)"

text \<open>Truth value of a Python object, as tested by \<open>if x\<close>, \<open>not x\<close> and \<open>x and y\<close>.\<close>

fun truthy :: "json \<Rightarrow> bool" where
  "truthy JNull = False"
| "truthy (JBool b) = b"
| "truthy (JInt i) = (i \<noteq> 0)"
| "truthy (JFloat q) = (q \<noteq> 0)"
| "truthy (JStr s) = (s \<noteq> [])"
| "truthy (JArr xs) = (xs \<noteq> [])"
| "truthy (JObj kvs) = (kvs \<noteq> [])"

text \<open>\<open>xs[i]\<close> on a Python sequence: a negative index counts from the end, an index out
  of range raises \<open>IndexError\<close>.\<close>

definition seq_index :: "'a list \<Rightarrow> int \<Rightarrow> exn + 'a" where
  "seq_index xs i =
     (if 0 \<le> i \<and> i < int (length xs) then Inr (xs ! nat i)
      else if i < 0 \<and> - int (length xs) \<le> i then Inr (xs ! nat (int (length xs) + i))
      else Inl IndexError)"

text \<open>\<open>v[i]\<close> with an integer \<open>i\<close>. A dict parsed from JSON has string keys only, so an
  integer key is always missing.\<close>

fun index_int :: "json \<Rightarrow> int \<Rightarrow> exn + json" where
  "index_int (JArr xs) i = seq_index xs i"
| "index_int (JStr s) i = map_sum id (\<lambda>c. JStr [c]) (seq_index s i)"
| "index_int (JObj kvs) i = Inl KeyError"
| "index_int v i = Inl TypeError"

text \<open>\<open>v["k"]\<close> with a string key.\<close>

fun index_key :: "json \<Rightarrow> string \<Rightarrow> exn + json" where
  "index_key (JObj kvs) k = (case map_of kvs k of None \<Rightarrow> Inl KeyError | Some v \<Rightarrow> Inr v)"
| "index_key v k = Inl TypeError"

text \<open>\<open>v.get(k, d)\<close>: only a dict has the method.\<close>

fun meth_get :: "json \<Rightarrow> string \<Rightarrow> json \<Rightarrow> exn + json" where
  "meth_get (JObj kvs) k d = (case map_of kvs k of None \<Rightarrow> Inr d | Some v \<Rightarrow> Inr v)"
| "meth_get v k d = Inl AttributeError"

text \<open>The items a \<open>for\<close> loop sees in \<open>v[:3]\<close>. Slicing a dict raises (\<open>TypeError\<close>
  before Python 3.12, \<open>KeyError\<close> from 3.12 on; both are plain \<open>Exception\<close>s).\<close>

fun slice3 :: "json \<Rightarrow> exn + json list" where
  "slice3 (JArr xs) = Inr (take 3 xs)"
| "slice3 (JStr s) = Inr (map (\<lambda>c. JStr [c]) (take 3 s))"
| "slice3 v = Inl TypeError"

text \<open>
  \<open>str.upper()\<close> follows the Unicode case tables of the Python runtime, which are not part
  of the program: it is the parameter \<open>upper\<close> of the resolvers below, and every general
  statement holds for an arbitrary \<open>upper\<close>. \<open>upper_ascii\<close> is what \<open>str.upper()\<close>
  computes on ASCII text (the letters a to z move to A to Z, every other ASCII character
  stays); it stands for \<open>upper\<close> only where a call is evaluated on an ASCII name.
\<close>

definition upper_ascii_char :: "char \<Rightarrow> char" where
  "upper_ascii_char c =
     (case map_of (zip ''abcdefghijklmnopqrstuvwxyz'' ''ABCDEFGHIJKLMNOPQRSTUVWXYZ'') c of
        Some u \<Rightarrow> u
      | None \<Rightarrow> c)"

definition upper_ascii :: "string \<Rightarrow> string" where
  "upper_ascii s = map upper_ascii_char s"

text \<open>The key under which a dict stores an object: lists and dicts are unhashable
  (\<open>TypeError\<close>), and numbers that compare equal (\<open>True\<close>, \<open>1\<close> and \<open>1.0\<close>) are one key.\<close>

fun hkey :: "json \<Rightarrow> json option" where
  "hkey (JArr xs) = None"
| "hkey (JObj kvs) = None"
| "hkey (JBool b) = Some (JInt (if b then 1 else 0))"
| "hkey (JFloat q) = Some (if q = of_int \<lfloor>q\<rfloor> then JInt \<lfloor>q\<rfloor> else JFloat q)"
| "hkey v = Some v"

text \<open>\<open>str(v)\<close> as an f-string computes it. Python's rendering of a value that is not a string
  (numbers, \<open>None\<close>, lists, dicts) is not part of the program and is the parameter
  \<open>str_of\<close>.\<close>

fun py_str :: "(json \<Rightarrow> string) \<Rightarrow> json \<Rightarrow> string" where
  "py_str str_of (JStr s) = s"
| "py_str str_of v = str_of v"

section \<open>The external service and the process state\<close>

text \<open>One constructor per endpoint the program calls, with the arguments that vary; the
  constant arguments are in the comments.\<close>

datatype request =
    LocationsGet string string "string option"
      \<comment> \<open>\<open>reference_data.locations.get(keyword, subType, view)\<close>\<close>
  | FlightOffersSearchGet string string string string
      \<comment> \<open>origin, destination, departure and return date; adults=1, currencyCode="USD", max=3\<close>
  | HotelOffersGet string string string
      \<comment> \<open>\<open>get('/v3/shopping/hotel-offers')\<close>: cityCode, checkInDate, checkOutDate\<close>
  | ActivitiesGet json json
      \<comment> \<open>latitude, longitude; radius=20\<close>

datatype api_result = Response json | Raises exn

text \<open>The service is any function of the queries issued so far and the present one.\<close>

type_synonym service = "request list \<Rightarrow> request \<Rightarrow> api_result"

record state =
  code_cache :: "string \<rightharpoonup> json"
  coordinate_cache :: "json \<rightharpoonup> json \<times> json"
  queries :: "request list"

definition call :: "service \<Rightarrow> request \<Rightarrow> state \<Rightarrow> api_result \<times> state" where
  "call svc r s = (svc (queries s) r, s\<lparr>queries := queries s @ [r]\<rparr>)"

definition initial_state :: state where
  "initial_state = \<lparr>code_cache = Map.empty, coordinate_cache = Map.empty, queries = []\<rparr>"

section \<open>City and airport code lookup with caching\<close>

text \<open>\<open>response.data[0]["iataCode"]\<close>\<close>

definition first_iata :: "json \<Rightarrow> exn + json" where
  "first_iata data = try_bind (index_int data 0) (\<lambda>d0. index_key d0 ''iataCode'')"

text \<open>The \<open>geoCode\<close> fields of the first entry:
  \<open>geo = response.data[0].get("geoCode", {})\<close>, then \<open>geo.get("latitude")\<close> and
  \<open>geo.get("longitude")\<close>.\<close>

definition first_geo :: "json \<Rightarrow> exn + json \<times> json" where
  "first_geo data =
     try_bind (index_int data 0) (\<lambda>d0.
     try_bind (meth_get d0 ''geoCode'' (JObj [])) (\<lambda>geo.
     try_bind (meth_get geo ''latitude'' JNull) (\<lambda>lat.
     try_bind (meth_get geo ''longitude'' JNull) (\<lambda>lon.
     Inr (lat, lon)))))"

text \<open>The body of \<open>get_city_code\<close>'s \<open>try\<close> once \<open>response.data\<close> is true. The state
  returned with an exception is the state at the point where it was raised.\<close>

definition get_city_code_try ::
  "(string \<Rightarrow> string) \<Rightarrow> json \<Rightarrow> string \<Rightarrow> state \<Rightarrow> (exn + json) \<times> state" where
  "get_city_code_try upper data city_name s =
     (case first_iata data of
        Inl e \<Rightarrow> (Inl e, s)
      | Inr code \<Rightarrow>
          (let s2 = s\<lparr>code_cache := (code_cache s)(upper city_name \<mapsto> code)\<rparr> in
           case first_geo data of
             Inl e \<Rightarrow> (Inl e, s2)
           | Inr (lat, lon) \<Rightarrow>
               if truthy lat \<and> truthy lon then
                 (case hkey code of
                    None \<Rightarrow> (Inl TypeError, s2)
                  | Some k \<Rightarrow>
                      (Inr code,
                       s2\<lparr>coordinate_cache := (coordinate_cache s2)(k \<mapsto> (lat, lon))\<rparr>))
               else (Inr code, s2)))"

definition get_city_code ::
  "(string \<Rightarrow> string) \<Rightarrow> service \<Rightarrow> string \<Rightarrow> state \<Rightarrow> json \<times> state" where
  "get_city_code upper svc city_name s =
     (case code_cache s (upper city_name) of
        Some c \<Rightarrow> (c, s)
      | None \<Rightarrow>
          (case call svc (LocationsGet city_name ''CITY'' (Some ''FULL'')) s of
             (Raises e, s1) \<Rightarrow> (JStr (upper (take 3 city_name)), s1)
           | (Response data, s1) \<Rightarrow>
               if truthy data then
                 (case get_city_code_try upper data city_name s1 of
                    (Inr code, s2) \<Rightarrow> (code, s2)
                  | (Inl e, s2) \<Rightarrow> (JStr (upper (take 3 city_name)), s2))
               else (JStr (upper (take 3 city_name)), s1)))"

definition get_airport_code ::
  "(string \<Rightarrow> string) \<Rightarrow> service \<Rightarrow> string \<Rightarrow> state \<Rightarrow> json \<times> state" where
  "get_airport_code upper svc city_name s =
     (case code_cache s (upper city_name) of
        Some c \<Rightarrow> (c, s)
      | None \<Rightarrow>
          (case call svc (LocationsGet city_name ''AIRPORT'' None) s of
             (Raises e, s1) \<Rightarrow> get_city_code upper svc city_name s1
           | (Response data, s1) \<Rightarrow>
               if truthy data then
                 (case first_iata data of
                    Inr code \<Rightarrow>
                      (code, s1\<lparr>code_cache := (code_cache s1)(upper city_name \<mapsto> code)\<rparr>)
                  | Inl e \<Rightarrow> get_city_code upper svc city_name s1)
               else get_city_code upper svc city_name s1))"

definition get_city_coordinates ::
  "service \<Rightarrow> string \<Rightarrow> state \<Rightarrow> (json \<times> json) option \<times> state" where
  "get_city_coordinates svc city_code s =
     (case coordinate_cache s (JStr city_code) of
        Some c \<Rightarrow> (Some c, s)
      | None \<Rightarrow>
          (case call svc (LocationsGet city_code ''CITY'' (Some ''FULL'')) s of
             (Raises e, s1) \<Rightarrow> (None, s1)
           | (Response data, s1) \<Rightarrow>
               if truthy data then
                 (case first_geo data of
                    Inl e \<Rightarrow> (None, s1)
                  | Inr (lat, lon) \<Rightarrow>
                      if truthy lat \<and> truthy lon then
                        (Some (lat, lon),
                         s1\<lparr>coordinate_cache :=
                              (coordinate_cache s1)(JStr city_code \<mapsto> (lat, lon))\<rparr>)
                      else (None, s1))
               else (None, s1)))"

section \<open>Result records\<close>

record FlightOption =
  airline :: json
  price :: string
  departure_time :: json
  arrival_time :: json

record HotelOption =
  name :: json
  nightly_price :: string
  address :: json

record Activity =
  name :: json
  description :: json

section \<open>Flight, hotel and activity queries\<close>

text \<open>The body of \<open>find_best_flight\<close>'s \<open>try\<close> from \<open>best = offers[0]\<close> on.\<close>

definition flight_option_of :: "(json \<Rightarrow> string) \<Rightarrow> json \<Rightarrow> exn + FlightOption" where
  "flight_option_of str_of offers =
     try_bind (index_int offers 0) (\<lambda>best.
     try_bind (try_bind (index_key best ''price'') (\<lambda>p. index_key p ''total'')) (\<lambda>total.
     try_bind (try_bind (index_key best ''itineraries'') (\<lambda>its. index_int its 0))
       (\<lambda>first_itinerary.
     try_bind (try_bind (index_key first_itinerary ''segments'') (\<lambda>segs. index_int segs 0))
       (\<lambda>first_segment.
     try_bind (try_bind (index_key first_itinerary ''segments'') (\<lambda>segs. index_int segs (- 1)))
       (\<lambda>last_segment.
     try_bind (index_key first_segment ''carrierCode'') (\<lambda>carrier.
     try_bind (try_bind (index_key first_segment ''departure'') (\<lambda>d. index_key d ''at''))
       (\<lambda>dep_at.
     try_bind (try_bind (index_key last_segment ''arrival'') (\<lambda>a. index_key a ''at''))
       (\<lambda>arr_at.
     Inr \<lparr>airline = carrier, price = py_str str_of total @ '' USD'',
          departure_time = dep_at, arrival_time = arr_at\<rparr>))))))))"

definition no_flights_found :: FlightOption where
  "no_flights_found =
     \<lparr>airline = JStr ''No flights found'', price = ''N/A'',
      departure_time = JStr ''N/A'', arrival_time = JStr ''N/A''\<rparr>"

definition error_fetching_flights :: FlightOption where
  "error_fetching_flights =
     \<lparr>airline = JStr ''Error fetching flights'', price = ''N/A'',
      departure_time = JStr ''N/A'', arrival_time = JStr ''N/A''\<rparr>"

text \<open>\<open>except ResponseError\<close> is the only handler of \<open>find_best_flight\<close>: any other
  exception leaves the function, which is the \<open>Inl\<close> result.\<close>

definition flight_except :: "exn \<Rightarrow> exn + FlightOption" where
  "flight_except e = (if e = ResponseError then Inr error_fetching_flights else Inl e)"

definition find_best_flight ::
  "service \<Rightarrow> (json \<Rightarrow> string) \<Rightarrow> string \<Rightarrow> string \<Rightarrow> string \<Rightarrow> string \<Rightarrow> state
     \<Rightarrow> (exn + FlightOption) \<times> state" where
  "find_best_flight svc str_of origin destination dep ret s =
     (case call svc (FlightOffersSearchGet origin destination dep ret) s of
        (Raises e, s1) \<Rightarrow> (flight_except e, s1)
      | (Response offers, s1) \<Rightarrow>
          if \<not> truthy offers then (Inr no_flights_found, s1)
          else (case flight_option_of str_of offers of
                  Inr f \<Rightarrow> (Inr f, s1)
                | Inl e \<Rightarrow> (flight_except e, s1)))"

definition no_hotel_offers_found :: HotelOption where
  "no_hotel_offers_found =
     \<lparr>HotelOption.name = JStr ''No hotel offers found'', nightly_price = ''N/A'', address = JStr ''N/A''\<rparr>"

text \<open>The body of \<open>find_best_hotel\<close>'s \<open>try\<close> after the call.\<close>

definition hotel_option_of :: "(json \<Rightarrow> string) \<Rightarrow> json \<Rightarrow> exn + HotelOption" where
  "hotel_option_of str_of data =
     (if \<not> truthy data then Inr no_hotel_offers_found
      else
        try_bind (index_int data 0) (\<lambda>d0.
        try_bind (meth_get d0 ''offers'' JNull) (\<lambda>offers.
        if \<not> truthy offers then Inr no_hotel_offers_found
        else
          try_bind (index_int data 0) (\<lambda>first_hotel_offers.
          try_bind (meth_get first_hotel_offers ''hotel'' (JObj [])) (\<lambda>hotel_info.
          try_bind (try_bind (meth_get first_hotel_offers ''offers'' (JArr [JObj []]))
                      (\<lambda>os. index_int os 0)) (\<lambda>offer_info.
          try_bind (meth_get hotel_info ''name'' (JStr ''Unknown Hotel'')) (\<lambda>nm.
          try_bind (try_bind (meth_get hotel_info ''address'' (JObj []))
                      (\<lambda>a. meth_get a ''lines'' (JArr []))) (\<lambda>address_lines.
          try_bind (if truthy address_lines then index_int address_lines 0
                    else Inr (JStr ''Address not available'')) (\<lambda>addr.
          try_bind (try_bind (meth_get offer_info ''price'' (JObj []))
                      (\<lambda>p. meth_get p ''total'' (JStr ''N/A''))) (\<lambda>total.
          Inr \<lparr>HotelOption.name = nm, nightly_price = py_str str_of total @ '' USD'',
               address = addr\<rparr>))))))))))"

definition hotel_except :: "exn \<Rightarrow> HotelOption" where
  "hotel_except e =
     (if e = ResponseError then
        \<lparr>HotelOption.name = JStr ''Error fetching hotels (API issue)'', nightly_price = ''N/A'',
         address = JStr ''N/A''\<rparr>
      else
        \<lparr>HotelOption.name = JStr ''Error fetching hotels (General)'', nightly_price = ''N/A'',
         address = JStr ''N/A''\<rparr>)"

definition find_best_hotel ::
  "service \<Rightarrow> (json \<Rightarrow> string) \<Rightarrow> string \<Rightarrow> string \<Rightarrow> string \<Rightarrow> state
     \<Rightarrow> HotelOption \<times> state" where
  "find_best_hotel svc str_of destination dep ret s =
     (case call svc (HotelOffersGet destination dep ret) s of
        (Raises e, s1) \<Rightarrow> (hotel_except e, s1)
      | (Response data, s1) \<Rightarrow>
          (case hotel_option_of str_of data of
             Inr h \<Rightarrow> (h, s1)
           | Inl e \<Rightarrow> (hotel_except e, s1)))"

text \<open>\<open>description += text\<close>: concatenation on a string, in-place extension by the
  characters of \<open>text\<close> on a list, \<open>TypeError\<close> on anything else.\<close>

fun iadd_str :: "json \<Rightarrow> string \<Rightarrow> exn + json" where
  "iadd_str (JStr d) t = Inr (JStr (d @ t))"
| "iadd_str (JArr xs) t = Inr (JArr (xs @ map (\<lambda>c. JStr [c]) t))"
| "iadd_str v t = Inl TypeError"

text \<open>One round of the \<open>for item in response.data[:3]\<close> loop.\<close>

definition activity_of :: "(json \<Rightarrow> string) \<Rightarrow> json \<Rightarrow> exn + Activity" where
  "activity_of str_of item =
     try_bind (meth_get item ''name'' (JStr ''Unknown Activity'')) (\<lambda>nm.
     try_bind (meth_get item ''category'' (JStr ''N/A'')) (\<lambda>cat.
     try_bind (meth_get item ''shortDescription'' JNull) (\<lambda>sd.
     try_bind (if truthy sd then index_key item ''shortDescription''
               else Inr (JStr (''Category: '' @ py_str str_of cat))) (\<lambda>descr.
     try_bind (meth_get item ''price'' (JObj [])) (\<lambda>price_info.
     try_bind (meth_get price_info ''currencyCode'' JNull) (\<lambda>cc.
     try_bind (if truthy cc then meth_get price_info ''amount'' JNull else Inr cc) (\<lambda>both.
     try_bind
       (if truthy both then
          try_bind (index_key price_info ''amount'') (\<lambda>amount.
          try_bind (index_key price_info ''currencyCode'') (\<lambda>currency.
          iadd_str descr
            ('' (Price: '' @ py_str str_of amount @ '' '' @ py_str str_of currency @ '')'')))
        else Inr descr) (\<lambda>descr2.
     Inr \<lparr>name = nm, description = descr2\<rparr>))))))))"

fun collect_activities ::
  "(json \<Rightarrow> string) \<Rightarrow> json list \<Rightarrow> Activity list \<Rightarrow> exn + Activity list" where
  "collect_activities str_of [] activities_list = Inr activities_list"
| "collect_activities str_of (item # items) activities_list =
     try_bind (activity_of str_of item)
       (\<lambda>a. collect_activities str_of items (activities_list @ [a]))"

definition static_fallback :: "Activity list" where
  "static_fallback =
     [\<lparr>name = JStr ''Local Exploration'',
       description = JStr ''Explore nearby attractions and sights.''\<rparr>,
      \<lparr>name = JStr ''Dining Experience'',
       description = JStr ''Try a highly-rated local restaurant.''\<rparr>]"

definition activities_of :: "(json \<Rightarrow> string) \<Rightarrow> json \<Rightarrow> exn + Activity list" where
  "activities_of str_of data =
     try_bind (slice3 data) (\<lambda>items.
     try_bind (collect_activities str_of items []) (\<lambda>activities_list.
     Inr (if activities_list \<noteq> [] then activities_list else static_fallback)))"

definition activities_except :: "exn \<Rightarrow> Activity list" where
  "activities_except e =
     (if e = ResponseError then
        [\<lparr>name = JStr ''City Walking Tour'',
          description = JStr ''Explore the main sights on foot (API Error Fallback).''\<rparr>,
         \<lparr>name = JStr ''Local Market'',
          description = JStr ''Enjoy local food and crafts (API Error Fallback).''\<rparr>]
      else
        [\<lparr>name = JStr ''Activity Search Failed'',
          description = JStr ''Check local listings (General Error Fallback).''\<rparr>])"

definition coordinate_error :: "Activity list" where
  "coordinate_error =
     [\<lparr>name = JStr ''Coordinate Error'',
       description = JStr ''Cannot search activities without coordinates.''\<rparr>]"

definition get_activities ::
  "service \<Rightarrow> (json \<Rightarrow> string) \<Rightarrow> string \<Rightarrow> state \<Rightarrow> Activity list \<times> state" where
  "get_activities svc str_of destination s =
     (case get_city_coordinates svc destination s of
        (None, s1) \<Rightarrow> (coordinate_error, s1)
      | (Some (latitude, longitude), s1) \<Rightarrow>
          (case call svc (ActivitiesGet latitude longitude) s1 of
             (Raises e, s2) \<Rightarrow> (activities_except e, s2)
           | (Response data, s2) \<Rightarrow>
               (case activities_of str_of data of
                  Inr activities_list \<Rightarrow> (activities_list, s2)
                | Inl e \<Rightarrow> (activities_except e, s2))))"

section \<open>Conditions on a lookup, and sample services\<close>

text \<open>A location lookup that gives the caller no code: the call raised, the result set is
  empty, or \<open>response.data[0]["iataCode"]\<close> raised.\<close>

fun empty_or_raises :: "api_result \<Rightarrow> bool" where
  "empty_or_raises (Raises e) = True"
| "empty_or_raises (Response data) = (\<not> truthy data)"

fun no_code :: "api_result \<Rightarrow> bool" where
  "no_code (Raises e) = True"
| "no_code (Response data) = (\<not> truthy data \<or> isl (first_iata data))"

text \<open>A service with no data at all: every query returns an empty result set.\<close>

definition svc_empty :: service where
  "svc_empty h r = Response (JArr [])"

definition paris_entry :: json where
  "paris_entry =
     JObj [(''iataCode'', JStr ''PAR''),
           (''geoCode'', JObj [(''latitude'', JFloat (4885 / 100)),
                               (''longitude'', JFloat (235 / 100))])]"

text \<open>A service that knows Paris under either subtype and has nothing else.\<close>

definition svc_paris :: service where
  "svc_paris h r =
     (case r of
        LocationsGet k st v \<Rightarrow> Response (JArr [paris_entry])
      | _ \<Rightarrow> Response (JArr []))"

text \<open>A service that knows New York: the code "NYC" is not the truncation of the name.\<close>

definition svc_new_york :: service where
  "svc_new_york h r =
     Response (JArr [JObj [(''iataCode'', JStr ''NYC''),
                           (''geoCode'', JObj [(''latitude'', JFloat (4071 / 100)),
                                               (''longitude'', JFloat (- 7401 / 100))])]])"

text \<open>A service that finds Paris as a city but no airport.\<close>

definition svc_city_only :: service where
  "svc_city_only h r =
     (case r of
        LocationsGet k st v \<Rightarrow>
          if st = ''AIRPORT'' then Response (JArr []) else Response (JArr [paris_entry])
      | _ \<Rightarrow> Response (JArr []))"

text \<open>A city on the equator: the latitude in the response is \<open>0.0\<close>.\<close>

definition svc_zero_latitude :: service where
  "svc_zero_latitude h r =
     Response (JArr [JObj [(''iataCode'', JStr ''MCP''),
                           (''geoCode'', JObj [(''latitude'', JFloat 0),
                                               (''longitude'', JFloat (- 5107 / 100))])]])"

text \<open>A location entry whose \<open>geoCode\<close> is \<open>null\<close>.\<close>

definition svc_null_geo :: service where
  "svc_null_geo h r =
     Response (JArr [JObj [(''iataCode'', JStr ''NYC''), (''geoCode'', JNull)]])"

text \<open>A flight search whose only offer has no fields.\<close>

definition svc_offer_without_price :: service where
  "svc_offer_without_price h r = Response (JArr [JObj []])"

definition segment_out :: json where
  "segment_out =
     JObj [(''carrierCode'', JStr ''AF''),
           (''departure'', JObj [(''iataCode'', JStr ''JFK''), (''at'', JStr ''2025-06-01T18:00:00'')]),
           (''arrival'', JObj [(''iataCode'', JStr ''KEF''), (''at'', JStr ''2025-06-02T04:10:00'')])]"

definition segment_on :: json where
  "segment_on =
     JObj [(''carrierCode'', JStr ''FI''),
           (''departure'', JObj [(''iataCode'', JStr ''KEF''), (''at'', JStr ''2025-06-02T07:30:00'')]),
           (''arrival'', JObj [(''iataCode'', JStr ''CDG''), (''at'', JStr ''2025-06-02T12:45:00'')])]"

definition offer_450 :: json where
  "offer_450 =
     JObj [(''price'', JObj [(''currency'', JStr ''USD''), (''total'', JStr ''450'')]),
           (''itineraries'', JArr [JObj [(''segments'', JArr [segment_out, segment_on])]])]"

text \<open>A flight search returning one offer priced "450", with two segments.\<close>

definition svc_one_offer :: service where
  "svc_one_offer h r = Response (JArr [offer_450])"

section \<open>Basic facts\<close>

lemma seq_index_first: "xs \<noteq> [] \<Longrightarrow> seq_index xs 0 = Inr (hd xs)"
  by (cases xs) (simp_all add: seq_index_def)

lemma seq_index_last: "xs \<noteq> [] \<Longrightarrow> seq_index xs (- 1) = Inr (last xs)"
  by (cases xs rule: rev_cases) (simp_all add: seq_index_def)

lemma cache_hit_city: "code_cache s (upper n) = Some c \<Longrightarrow> get_city_code upper svc n s = (c, s)"
  by (simp add: get_city_code_def)

lemma cache_hit_airport:
  "code_cache s (upper n) = Some c \<Longrightarrow> get_airport_code upper svc n s = (c, s)"
  by (simp add: get_airport_code_def)

text \<open>A city lookup that gives no code returns the truncated name and only records the
  query.\<close>

lemma get_city_code_no_code:
  assumes "code_cache s (upper n) = None"
    and "no_code (svc (queries s) (LocationsGet n ''CITY'' (Some ''FULL'')))"
  shows "get_city_code upper svc n s =
     (JStr (upper (take 3 n)),
      s\<lparr>queries := queries s @ [LocationsGet n ''CITY'' (Some ''FULL'')]\<rparr>)"
  using assms
  by (cases "svc (queries s) (LocationsGet n ''CITY'' (Some ''FULL''))")
     (auto simp: get_city_code_def call_def get_city_code_try_def split: sum.splits)

text \<open>The sample service for Paris, run from the empty caches.\<close>

lemma svc_paris_city:
  "get_city_code upper_ascii svc_paris ''Paris'' initial_state =
     (JStr ''PAR'',
      \<lparr>code_cache = [''PARIS'' \<mapsto> JStr ''PAR''],
       coordinate_cache = [JStr ''PAR'' \<mapsto> (JFloat (4885 / 100), JFloat (235 / 100))],
       queries = [LocationsGet ''Paris'' ''CITY'' (Some ''FULL'')]\<rparr>)"
  by (simp add: get_city_code_def call_def svc_paris_def initial_state_def upper_ascii_def
      upper_ascii_char_def get_city_code_try_def first_iata_def first_geo_def try_bind_def
      seq_index_def paris_entry_def)

lemma svc_paris_airport:
  "get_airport_code upper_ascii svc_paris ''Paris'' initial_state =
     (JStr ''PAR'',
      \<lparr>code_cache = [''PARIS'' \<mapsto> JStr ''PAR''], coordinate_cache = Map.empty,
       queries = [LocationsGet ''Paris'' ''AIRPORT'' None]\<rparr>)"
  by (simp add: get_airport_code_def call_def svc_paris_def initial_state_def upper_ascii_def
      upper_ascii_char_def first_iata_def try_bind_def seq_index_def paris_entry_def)

text \<open>An airport lookup that gives no code hands over to the city resolver, with the caches as
  they were and the airport query recorded.\<close>

lemma get_airport_code_no_code:
  assumes "code_cache s (upper n) = None"
    and "no_code (svc (queries s) (LocationsGet n ''AIRPORT'' None))"
  shows "get_airport_code upper svc n s =
     get_city_code upper svc n (s\<lparr>queries := queries s @ [LocationsGet n ''AIRPORT'' None]\<rparr>)"
  using assms
  by (cases "svc (queries s) (LocationsGet n ''AIRPORT'' None)")
     (auto simp: get_airport_code_def call_def split: sum.splits)

lemma upper_ascii_empty: "upper_ascii t = [] \<longleftrightarrow> t = []"
  by (simp add: upper_ascii_def)

text \<open>A city lookup whose first entry has a code caches that code under the upper-cased
  name, whatever happens while the coordinates are read, and records one query.\<close>

lemma get_city_code_lookup_caches:
  assumes "code_cache s (upper n) = None"
    and "svc (queries s) (LocationsGet n ''CITY'' (Some ''FULL'')) = Response data"
    and "first_iata data = Inr code"
  shows "code_cache (snd (get_city_code upper svc n s)) (upper n) = Some code
       \<and> queries (snd (get_city_code upper svc n s))
           = queries s @ [LocationsGet n ''CITY'' (Some ''FULL'')]"
proof -
  have t: "truthy data"
    using assms(3)
    by (cases data) (auto simp: first_iata_def try_bind_def seq_index_def split: if_splits)
  show ?thesis
    using assms t
    by (auto simp: get_city_code_def call_def get_city_code_try_def Let_def
        split: sum.splits option.splits prod.splits)
qed

text \<open>A city lookup that gives no code writes to neither cache.\<close>

lemma caches_unchanged_no_code:
  assumes "code_cache s (upper n) = None"
    and "no_code (svc (queries s) (LocationsGet n ''CITY'' (Some ''FULL'')))"
  shows "code_cache (snd (get_city_code upper svc n s)) = code_cache s
       \<and> coordinate_cache (snd (get_city_code upper svc n s)) = coordinate_cache s"
  using get_city_code_no_code [where s = s and n = n and svc = svc and upper = upper] assms
  by simp

text \<open>When the first entry carries a string code and a latitude and longitude that both
  count as true, the coordinates are cached under the code and \<open>get_city_coordinates\<close>
  answers from the cache, whatever service it is given.\<close>

lemma get_city_code_caches_coordinates:
  assumes "code_cache s (upper n) = None"
    and "svc (queries s) (LocationsGet n ''CITY'' (Some ''FULL'')) = Response data"
    and "first_iata data = Inr (JStr code)"
    and "first_geo data = Inr (lat, lon)"
    and "truthy lat" "truthy lon"
  shows "fst (get_city_code upper svc n s) = JStr code
       \<and> get_city_coordinates svc2 code (snd (get_city_code upper svc n s))
           = (Some (lat, lon), snd (get_city_code upper svc n s))"
proof -
  have t: "truthy data"
    using assms(3)
    by (cases data) (auto simp: first_iata_def try_bind_def seq_index_def split: if_splits)
  show ?thesis
    using assms t
    by (simp add: get_city_code_def call_def get_city_code_try_def get_city_coordinates_def)
qed

lemma svc_paris_coordinates:
  "get_city_coordinates svc_paris ''PAR'' initial_state =
     (Some (JFloat (4885 / 100), JFloat (235 / 100)),
      \<lparr>code_cache = Map.empty,
       coordinate_cache = [JStr ''PAR'' \<mapsto> (JFloat (4885 / 100), JFloat (235 / 100))],
       queries = [LocationsGet ''PAR'' ''CITY'' (Some ''FULL'')]\<rparr>)"
  by (simp add: get_city_coordinates_def call_def svc_paris_def initial_state_def
      first_geo_def try_bind_def seq_index_def paris_entry_def)

text \<open>The loop appends one activity per item, so the list it returns is as long as the
  slice.\<close>

lemma collect_activities_length:
  "collect_activities f items acc = Inr l \<Longrightarrow> length l = length acc + length items"
  by (induction items arbitrary: acc) (auto simp: try_bind_def split: sum.splits)

lemma activities_of_length:
  assumes "activities_of f data = Inr l"
  shows "1 \<le> length l \<and> length l \<le> 3"
proof -
  from assms obtain items acts where items: "slice3 data = Inr items"
    and acts: "collect_activities f items [] = Inr acts"
    and l: "l = (if acts \<noteq> [] then acts else static_fallback)"
    by (auto simp: activities_of_def try_bind_def split: sum.splits)
  have "length items \<le> 3"
    using items by (cases data) auto
  with collect_activities_length [OF acts] have "length acts \<le> 3"
    by simp
  with l show ?thesis
    by (cases acts) (simp_all add: static_fallback_def)
qed

lemma activities_except_length:
  "1 \<le> length (activities_except e) \<and> length (activities_except e) \<le> 3"
  by (simp add: activities_except_def)

section \<open>The truncation fallback of the city resolver\<close>

text \<open>
  Claim C5. \<open>get_city_code\<close> never fails outward (its result is a plain value, not an
  exception): for every input name that is not cached, when the external lookup returns an
  empty result or raises, the function returns the first three characters of the name,
  upper-cased, whatever function \<open>str.upper()\<close> is. For the unresolvable name "Zzqx" the
  result is "ZZQ".
\<close>

theorem get_city_code_fallback:
  assumes "code_cache s (upper city_name) = None"
    and "empty_or_raises (svc (queries s) (LocationsGet city_name ''CITY'' (Some ''FULL'')))"
  shows "fst (get_city_code upper svc city_name s) = JStr (upper (take 3 city_name))"
  using assms
  by (cases "svc (queries s) (LocationsGet city_name ''CITY'' (Some ''FULL''))")
     (simp_all add: get_city_code_def call_def)

theorem get_city_code_fallback_witness:
  "code_cache initial_state (upper_ascii ''Zzqx'') = None
   \<and> empty_or_raises
        (svc_empty (queries initial_state) (LocationsGet ''Zzqx'' ''CITY'' (Some ''FULL'')))
   \<and> fst (get_city_code upper_ascii svc_empty ''Zzqx'' initial_state) = JStr ''ZZQ''"
proof -
  have miss: "code_cache initial_state (upper_ascii ''Zzqx'') = None"
    by (simp add: initial_state_def)
  have empty: "empty_or_raises
      (svc_empty (queries initial_state) (LocationsGet ''Zzqx'' ''CITY'' (Some ''FULL'')))"
    by (simp add: svc_empty_def)
  have "upper_ascii (take 3 ''Zzqx'') = ''ZZQ''"
    by (simp add: upper_ascii_def upper_ascii_char_def)
  with get_city_code_fallback
         [where s = initial_state and city_name = "''Zzqx''" and svc = svc_empty
             and upper = upper_ascii]
    miss empty
  show ?thesis
    by simp
qed

section \<open>Repeated resolution and the shared cache\<close>

text \<open>
  Claim C2, as stated: calling \<open>get_city_code\<close> twice with the same name, in any letter
  case, issues at most one external location query in total, whatever the service does.
  This fails when the first lookup finds nothing: the fallback code is not cached, and the
  second call queries the service again.
\<close>

theorem get_city_code_twice_counterexample:
  "\<not> length (queries (snd (get_city_code upper_ascii svc_empty ''zzqx''
         (snd (get_city_code upper_ascii svc_empty ''Zzqx'' initial_state))))) \<le> 1"
  by (simp add: get_city_code_def call_def svc_empty_def initial_state_def upper_ascii_def
      upper_ascii_char_def)

text \<open>
  Claim C2, amended: two \<open>get_city_code\<close> calls with the same name, in any letter case,
  issue at most one external query in total whenever the name is already cached or the
  first lookup returns a result whose first entry has an \<open>iataCode\<close>. In the first case
  both calls return the cached code and issue no query. In the second the first call issues
  one query and caches the code, and the second call returns that code from the cache and
  leaves the state, and so the list of queries, as it is.
\<close>

theorem get_city_code_twice:
  assumes "upper name2 = upper name1"
  shows "(code_cache s (upper name1) = Some c \<longrightarrow>
            get_city_code upper svc name1 s = (c, s)
            \<and> get_city_code upper svc name2 s = (c, s))
       \<and> (code_cache s (upper name1) = None
            \<and> svc (queries s) (LocationsGet name1 ''CITY'' (Some ''FULL'')) = Response data
            \<and> first_iata data = Inr code \<longrightarrow>
            code_cache (snd (get_city_code upper svc name1 s)) (upper name1) = Some code
            \<and> queries (snd (get_city_code upper svc name1 s))
                = queries s @ [LocationsGet name1 ''CITY'' (Some ''FULL'')]
            \<and> get_city_code upper svc name2 (snd (get_city_code upper svc name1 s))
                = (code, snd (get_city_code upper svc name1 s)))"
proof (intro conjI impI)
  assume hit: "code_cache s (upper name1) = Some c"
  then show "get_city_code upper svc name1 s = (c, s)"
    by (rule cache_hit_city)
  from hit assms show "get_city_code upper svc name2 s = (c, s)"
    by (simp add: cache_hit_city)
next
  assume lookup: "code_cache s (upper name1) = None
    \<and> svc (queries s) (LocationsGet name1 ''CITY'' (Some ''FULL'')) = Response data
    \<and> first_iata data = Inr code"
  then have cached:
    "code_cache (snd (get_city_code upper svc name1 s)) (upper name1) = Some code
     \<and> queries (snd (get_city_code upper svc name1 s))
         = queries s @ [LocationsGet name1 ''CITY'' (Some ''FULL'')]"
    using get_city_code_lookup_caches
            [where s = s and n = name1 and svc = svc and upper = upper and data = data
               and code = code]
    by simp
  then show "code_cache (snd (get_city_code upper svc name1 s)) (upper name1) = Some code"
    and "queries (snd (get_city_code upper svc name1 s))
           = queries s @ [LocationsGet name1 ''CITY'' (Some ''FULL'')]"
    by simp_all
  from cached assms
  show "get_city_code upper svc name2 (snd (get_city_code upper svc name1 s))
          = (code, snd (get_city_code upper svc name1 s))"
    by (simp add: cache_hit_city)
qed

lemma svc_new_york_city:
  "get_city_code upper_ascii svc_new_york ''New York'' initial_state =
     (JStr ''NYC'',
      \<lparr>code_cache = [''NEW YORK'' \<mapsto> JStr ''NYC''],
       coordinate_cache = [JStr ''NYC'' \<mapsto> (JFloat (4071 / 100), JFloat (- 7401 / 100))],
       queries = [LocationsGet ''New York'' ''CITY'' (Some ''FULL'')]\<rparr>)"
  by (simp add: get_city_code_def call_def svc_new_york_def initial_state_def upper_ascii_def
      upper_ascii_char_def get_city_code_try_def first_iata_def first_geo_def try_bind_def
      seq_index_def)

theorem get_city_code_twice_witness:
  "upper_ascii ''NEW YORK'' = upper_ascii ''New York''
   \<and> get_city_code upper_ascii svc_new_york ''New York'' initial_state
       = (JStr ''NYC'', snd (get_city_code upper_ascii svc_new_york ''New York'' initial_state))
   \<and> get_city_code upper_ascii svc_new_york ''NEW YORK''
         (snd (get_city_code upper_ascii svc_new_york ''New York'' initial_state))
       = (JStr ''NYC'', snd (get_city_code upper_ascii svc_new_york ''New York'' initial_state))
   \<and> queries (snd (get_city_code upper_ascii svc_new_york ''New York'' initial_state))
       = [LocationsGet ''New York'' ''CITY'' (Some ''FULL'')]
   \<and> get_city_code upper_ascii svc_empty ''new york''
         (snd (get_city_code upper_ascii svc_new_york ''New York'' initial_state))
       = (JStr ''NYC'', snd (get_city_code upper_ascii svc_new_york ''New York'' initial_state))"
proof -
  let ?s1 = "snd (get_city_code upper_ascii svc_new_york ''New York'' initial_state)"
  have same: "upper_ascii ''NEW YORK'' = upper_ascii ''New York''"
    by (simp add: upper_ascii_def upper_ascii_char_def)
  have same2: "upper_ascii ''new york'' = upper_ascii ''New York''"
    by (simp add: upper_ascii_def upper_ascii_char_def)
  have miss: "code_cache initial_state (upper_ascii ''New York'') = None"
    by (simp add: initial_state_def)
  have resp: "svc_new_york (queries initial_state) (LocationsGet ''New York'' ''CITY'' (Some ''FULL''))
      = Response (JArr [JObj [(''iataCode'', JStr ''NYC''),
                           (''geoCode'', JObj [(''latitude'', JFloat (4071 / 100)),
                                               (''longitude'', JFloat (- 7401 / 100))])]])"
    by (simp add: svc_new_york_def)
  have code: "first_iata (JArr [JObj [(''iataCode'', JStr ''NYC''),
                           (''geoCode'', JObj [(''latitude'', JFloat (4071 / 100)),
                                               (''longitude'', JFloat (- 7401 / 100))])]])
      = Inr (JStr ''NYC'')"
    by (simp add: first_iata_def try_bind_def seq_index_def)
  have fresh: "queries initial_state = []"
    by (simp add: initial_state_def)
  from get_city_code_twice
         [where upper = upper_ascii and ?name1.0 = "''New York''" and ?name2.0 = "''NEW YORK''"
            and s = initial_state and svc = svc_new_york and code = "JStr ''NYC''"
            and data = "JArr [JObj [(''iataCode'', JStr ''NYC''),
                           (''geoCode'', JObj [(''latitude'', JFloat (4071 / 100)),
                                               (''longitude'', JFloat (- 7401 / 100))])]]"]
       same miss resp code fresh
  have cached: "code_cache ?s1 (upper_ascii ''New York'') = Some (JStr ''NYC'')"
    and log: "queries ?s1 = [LocationsGet ''New York'' ''CITY'' (Some ''FULL'')]"
    and second: "get_city_code upper_ascii svc_new_york ''NEW YORK'' ?s1 = (JStr ''NYC'', ?s1)"
    by simp_all
  from get_city_code_twice
         [where upper = upper_ascii and ?name1.0 = "''New York''" and ?name2.0 = "''new york''"
            and s = ?s1 and svc = svc_empty and c = "JStr ''NYC''"]
       same2 cached
  have third: "get_city_code upper_ascii svc_empty ''new york'' ?s1 = (JStr ''NYC'', ?s1)"
    by simp
  have first: "get_city_code upper_ascii svc_new_york ''New York'' initial_state
                 = (JStr ''NYC'', ?s1)"
    by (simp add: svc_new_york_city)
  from same first second log third show ?thesis
    by simp
qed

text \<open>
  Claim C9. The two resolvers share one cache keyed by the upper-cased name: once either
  \<open>get_city_code\<close> or \<open>get_airport_code\<close> has returned a code \<open>c\<close> for a name and left
  it cached, a call of the other resolver with the same name, in any letter case, returns
  \<open>c\<close> and leaves the state unchanged, so it issues no external query.
\<close>

theorem resolvers_share_cache:
  assumes "upper name2 = upper name1"
  shows "(get_city_code upper svc name1 s = (c, s1) \<and> code_cache s1 (upper name1) = Some c
            \<longrightarrow> get_airport_code upper svc name2 s1 = (c, s1))
       \<and> (get_airport_code upper svc name1 s = (c, s1) \<and> code_cache s1 (upper name1) = Some c
            \<longrightarrow> get_city_code upper svc name2 s1 = (c, s1))"
  using assms by (simp add: cache_hit_city cache_hit_airport)

theorem resolvers_share_cache_witness:
  "upper_ascii ''paris'' = upper_ascii ''Paris''
   \<and> get_airport_code upper_ascii svc_paris ''paris'' (snd (get_city_code upper_ascii svc_paris ''Paris'' initial_state))
       = get_city_code upper_ascii svc_paris ''Paris'' initial_state
   \<and> get_city_code upper_ascii svc_paris ''paris'' (snd (get_airport_code upper_ascii svc_paris ''Paris'' initial_state))
       = get_airport_code upper_ascii svc_paris ''Paris'' initial_state"
proof -
  have same: "upper_ascii ''paris'' = upper_ascii ''Paris''"
    by (simp add: upper_ascii_def upper_ascii_char_def)
  have up: "upper_ascii ''Paris'' = ''PARIS''"
    by (simp add: upper_ascii_def upper_ascii_char_def)
  from resolvers_share_cache
         [where upper = upper_ascii and ?name1.0 = "''Paris''" and ?name2.0 = "''paris''"
            and svc = svc_paris and s = initial_state and c = "JStr ''PAR''"
            and ?s1.0 = "snd (get_city_code upper_ascii svc_paris ''Paris'' initial_state)"]
       same
  have a: "get_airport_code upper_ascii svc_paris ''paris''
             (snd (get_city_code upper_ascii svc_paris ''Paris'' initial_state))
           = get_city_code upper_ascii svc_paris ''Paris'' initial_state"
    by (simp add: svc_paris_city up)
  from resolvers_share_cache
         [where upper = upper_ascii and ?name1.0 = "''Paris''" and ?name2.0 = "''paris''"
            and svc = svc_paris and s = initial_state and c = "JStr ''PAR''"
            and ?s1.0 = "snd (get_airport_code upper_ascii svc_paris ''Paris'' initial_state)"]
       same
  have b: "get_city_code upper_ascii svc_paris ''paris''
             (snd (get_airport_code upper_ascii svc_paris ''Paris'' initial_state))
           = get_airport_code upper_ascii svc_paris ''Paris'' initial_state"
    by (simp add: svc_paris_airport up)
  from same a b show ?thesis
    by simp
qed

section \<open>The airport resolver's fallback chain\<close>

text \<open>
  Claim C4, as stated: for every input name \<open>get_airport_code\<close> returns a non-empty code.
  This fails for the empty name when neither lookup finds anything: the truncation of the
  empty name is the empty string.
\<close>

theorem get_airport_code_nonempty_counterexample:
  "fst (get_airport_code upper_ascii svc_empty [] initial_state) = JStr []"
  by (simp add: get_airport_code_def get_city_code_def call_def svc_empty_def initial_state_def
      upper_ascii_def)

text \<open>
  Claim C4, amended: for every name that is not cached, whenever the airport-subtype lookup
  raises, returns an empty result or returns a first entry without a readable code,
  \<open>get_airport_code\<close> returns exactly what \<open>get_city_code\<close> returns for the same name
  on the state with the same caches in which the airport query is recorded. If the city
  lookup gives no code either, the result is the first three characters of the name,
  upper-cased; as upper-casing never turns a non-empty text into the empty one, this code
  is non-empty whenever the name is non-empty.
\<close>

theorem get_airport_code_fallback_chain:
  assumes "code_cache s (upper city_name) = None"
    and "no_code (svc (queries s) (LocationsGet city_name ''AIRPORT'' None))"
    and "\<forall>t. t \<noteq> [] \<longrightarrow> upper t \<noteq> []"
  shows "get_airport_code upper svc city_name s
           = get_city_code upper svc city_name
               (s\<lparr>queries := queries s @ [LocationsGet city_name ''AIRPORT'' None]\<rparr>)
       \<and> (no_code (svc (queries s @ [LocationsGet city_name ''AIRPORT'' None])
                      (LocationsGet city_name ''CITY'' (Some ''FULL'')))
            \<longrightarrow> fst (get_airport_code upper svc city_name s) = JStr (upper (take 3 city_name))
              \<and> (city_name \<noteq> [] \<longrightarrow> fst (get_airport_code upper svc city_name s) \<noteq> JStr []))"
proof -
  let ?s1 = "s\<lparr>queries := queries s @ [LocationsGet city_name ''AIRPORT'' None]\<rparr>"
  have chain: "get_airport_code upper svc city_name s = get_city_code upper svc city_name ?s1"
    using assms(1,2) by (simp add: get_airport_code_no_code)
  have miss1: "code_cache ?s1 (upper city_name) = None"
    using assms(1) by simp
  have nonempty: "city_name \<noteq> [] \<longrightarrow> upper (take 3 city_name) \<noteq> []"
    using assms(3) by (cases city_name) simp_all
  show ?thesis
    using get_city_code_no_code
            [where s = ?s1 and n = city_name and svc = svc and upper = upper] miss1 nonempty
    by (simp add: chain)
qed

theorem get_airport_code_fallback_chain_witness:
  "code_cache initial_state (upper_ascii ''Zzqx'') = None
   \<and> no_code (svc_empty (queries initial_state) (LocationsGet ''Zzqx'' ''AIRPORT'' None))
   \<and> get_airport_code upper_ascii svc_empty ''Zzqx'' initial_state
       = get_city_code upper_ascii svc_empty ''Zzqx''
           (initial_state\<lparr>queries := [LocationsGet ''Zzqx'' ''AIRPORT'' None]\<rparr>)
   \<and> fst (get_airport_code upper_ascii svc_empty ''Zzqx'' initial_state) = JStr ''ZZQ''
   \<and> fst (get_airport_code upper_ascii svc_empty ''Zzqx'' initial_state) \<noteq> JStr []"
proof -
  have miss: "code_cache initial_state (upper_ascii ''Zzqx'') = None"
    by (simp add: initial_state_def)
  have empty:
    "no_code (svc_empty (queries initial_state) (LocationsGet ''Zzqx'' ''AIRPORT'' None))"
    by (simp add: svc_empty_def)
  have keeps: "\<forall>t. t \<noteq> [] \<longrightarrow> upper_ascii t \<noteq> []"
    by (simp add: upper_ascii_empty)
  have empty1:
    "no_code (svc_empty (queries initial_state @ [LocationsGet ''Zzqx'' ''AIRPORT'' None])
       (LocationsGet ''Zzqx'' ''CITY'' (Some ''FULL'')))"
    by (simp add: svc_empty_def)
  have fresh: "queries initial_state = []"
    by (simp add: initial_state_def)
  have up: "upper_ascii (take 3 ''Zzqx'') = ''ZZQ''"
    by (simp add: upper_ascii_def upper_ascii_char_def)
  have name: "''Zzqx'' \<noteq> []"
    by simp
  from get_airport_code_fallback_chain
         [where s = initial_state and city_name = "''Zzqx''" and svc = svc_empty
            and upper = upper_ascii]
       miss empty keeps empty1 name
  have "get_airport_code upper_ascii svc_empty ''Zzqx'' initial_state
          = get_city_code upper_ascii svc_empty ''Zzqx''
              (initial_state
                 \<lparr>queries := queries initial_state @ [LocationsGet ''Zzqx'' ''AIRPORT'' None]\<rparr>)"
    and "fst (get_airport_code upper_ascii svc_empty ''Zzqx'' initial_state)
           = JStr (upper_ascii (take 3 ''Zzqx''))"
    and "fst (get_airport_code upper_ascii svc_empty ''Zzqx'' initial_state) \<noteq> JStr []"
    by blast+
  with miss empty fresh up show ?thesis
    by simp
qed

section \<open>What the error branch leaves in the caches\<close>

text \<open>
  Claim C6 says that a \<open>get_city_code\<close> call ending in the error branch, with the fallback
  code as its result, leaves both caches as they were. The code writes the code cache before
  it reads the \<open>geoCode\<close> fields, inside the same \<open>try\<close>. For a location entry whose
  \<open>geoCode\<close> is \<open>null\<close> the read raises: the call returns the fallback "NEW" for
  "New York", and "NEW YORK" is left cached as "NYC".
\<close>

theorem get_city_code_geo_error_caches:
  "fst (get_city_code upper_ascii svc_null_geo ''New York'' initial_state) = JStr ''NEW''
   \<and> code_cache initial_state ''NEW YORK'' = None
   \<and> code_cache (snd (get_city_code upper_ascii svc_null_geo ''New York'' initial_state)) ''NEW YORK''
       = Some (JStr ''NYC'')"
  by (simp add: get_city_code_def call_def svc_null_geo_def initial_state_def upper_ascii_def
      upper_ascii_char_def get_city_code_try_def first_iata_def first_geo_def try_bind_def
      seq_index_def)

section \<open>Coordinates cached by the city resolver\<close>

text \<open>
  Claim C3 says that a successful \<open>get_city_code\<close> call whose response carries geo
  coordinates caches them under the resolved code, so that \<open>get_city_coordinates\<close> then
  answers from the cache without a query. The code tests the coordinates for truth, and a
  latitude of \<open>0.0\<close> is false: for a city on the equator the call returns the code "MCP",
  caches no coordinates, and the following \<open>get_city_coordinates\<close> call issues a second
  query and returns nothing.
\<close>

theorem zero_latitude_not_cached:
  "fst (get_city_code upper_ascii svc_zero_latitude ''Macapa'' initial_state) = JStr ''MCP''
   \<and> coordinate_cache (snd (get_city_code upper_ascii svc_zero_latitude ''Macapa'' initial_state))
        (JStr ''MCP'') = None
   \<and> queries (snd (get_city_coordinates svc_zero_latitude ''MCP''
        (snd (get_city_code upper_ascii svc_zero_latitude ''Macapa'' initial_state))))
       = [LocationsGet ''Macapa'' ''CITY'' (Some ''FULL''),
          LocationsGet ''MCP'' ''CITY'' (Some ''FULL'')]
   \<and> fst (get_city_coordinates svc_zero_latitude ''MCP''
        (snd (get_city_code upper_ascii svc_zero_latitude ''Macapa'' initial_state))) = None"
  by (simp add: get_city_code_def get_city_coordinates_def call_def svc_zero_latitude_def
      initial_state_def upper_ascii_def upper_ascii_char_def get_city_code_try_def first_iata_def
      first_geo_def try_bind_def seq_index_def)

section \<open>The flight query\<close>

text \<open>
  Claim C1 says that none of \<open>find_best_flight\<close>, \<open>find_best_hotel\<close> and
  \<open>get_activities\<close> raises, whatever the service returns. \<open>find_best_hotel\<close> and
  \<open>get_activities\<close> end in \<open>except Exception\<close>, and their models return a plain record;
  \<open>find_best_flight\<close> handles \<open>ResponseError\<close> only. For an offer without a
  \<open>price\<close> field the subscript raises \<open>KeyError\<close>, which leaves the function.
\<close>

theorem find_best_flight_raises:
  "fst (find_best_flight svc_offer_without_price (\<lambda>v. []) ''JFK'' ''CDG'' ''2025-06-01''
         ''2025-06-10'' initial_state) = Inl KeyError"
  by (simp add: find_best_flight_def call_def svc_offer_without_price_def initial_state_def
      flight_option_of_def try_bind_def seq_index_def flight_except_def)

text \<open>
  Claim C7. When the flight service returns a non-empty list of offers, \<open>find_best_flight\<close>
  takes the first offer as it stands: the airline is the \<open>carrierCode\<close> of the first
  segment of the first itinerary, the departure time is that segment's \<open>departure.at\<close>,
  the arrival time is the last segment's \<open>arrival.at\<close>, and the price is the offer's
  \<open>price.total\<close> followed by " USD". An offer priced "450" gives the price "450 USD".
\<close>

theorem find_best_flight_first_offer:
  assumes "svc (queries s) (FlightOffersSearchGet origin destination dep ret)
             = Response (JArr (best # rest))"
    and "index_key best ''price'' = Inr p"
    and "index_key p ''total'' = Inr tot"
    and "index_key best ''itineraries'' = Inr (JArr (first_itinerary # others))"
    and "index_key first_itinerary ''segments'' = Inr (JArr segments)"
    and "segments \<noteq> []"
    and "index_key (hd segments) ''carrierCode'' = Inr carrier"
    and "index_key (hd segments) ''departure'' = Inr d"
    and "index_key d ''at'' = Inr dep_at"
    and "index_key (last segments) ''arrival'' = Inr a"
    and "index_key a ''at'' = Inr arr_at"
  shows "fst (find_best_flight svc str_of origin destination dep ret s)
           = Inr \<lparr>airline = carrier, price = py_str str_of tot @ '' USD'',
                  departure_time = dep_at, arrival_time = arr_at\<rparr>"
proof -
  have body: "flight_option_of str_of (JArr (best # rest))
           = Inr \<lparr>airline = carrier, price = py_str str_of tot @ '' USD'',
                  departure_time = dep_at, arrival_time = arr_at\<rparr>"
    using assms(2-)
    by (simp add: flight_option_of_def try_bind_def seq_index_first seq_index_last)
  show ?thesis
    using assms(1) by (simp add: find_best_flight_def call_def body)
qed

theorem find_best_flight_first_offer_witness:
  "fst (find_best_flight svc_one_offer (\<lambda>v. []) ''JFK'' ''CDG'' ''2025-06-01'' ''2025-06-10''
         initial_state)
     = Inr \<lparr>airline = JStr ''AF'', price = ''450 USD'',
            departure_time = JStr ''2025-06-01T18:00:00'',
            arrival_time = JStr ''2025-06-02T12:45:00''\<rparr>"
proof -
  have "fst (find_best_flight svc_one_offer (\<lambda>v. []) ''JFK'' ''CDG'' ''2025-06-01''
          ''2025-06-10'' initial_state)
     = Inr \<lparr>airline = JStr ''AF'', price = py_str (\<lambda>v. []) (JStr ''450'') @ '' USD'',
            departure_time = JStr ''2025-06-01T18:00:00'',
            arrival_time = JStr ''2025-06-02T12:45:00''\<rparr>"
    by (rule find_best_flight_first_offer
          [where best = offer_450 and rest = "[]"
             and p = "JObj [(''currency'', JStr ''USD''), (''total'', JStr ''450'')]"
             and first_itinerary = "JObj [(''segments'', JArr [segment_out, segment_on])]"
             and others = "[]" and segments = "[segment_out, segment_on]"
             and d = "JObj [(''iataCode'', JStr ''JFK''), (''at'', JStr ''2025-06-01T18:00:00'')]"
             and a = "JObj [(''iataCode'', JStr ''CDG''), (''at'', JStr ''2025-06-02T12:45:00'')]"])
       (simp_all add: svc_one_offer_def offer_450_def segment_out_def segment_on_def)
  then show ?thesis
    by simp
qed

section \<open>The activities query\<close>

text \<open>
  Claim C8. For a destination code whose coordinates resolve, if the activities query
  succeeds with zero results, \<open>get_activities\<close> returns exactly the static fallback of two
  entries, "Local Exploration" and then "Dining Experience", and not an empty list.
\<close>

theorem get_activities_static_fallback:
  assumes "get_city_coordinates svc destination s = (Some (latitude, longitude), s1)"
    and "svc (queries s1) (ActivitiesGet latitude longitude) = Response (JArr [])"
  shows "fst (get_activities svc str_of destination s)
           = [\<lparr>name = JStr ''Local Exploration'',
                description = JStr ''Explore nearby attractions and sights.''\<rparr>,
              \<lparr>name = JStr ''Dining Experience'',
                description = JStr ''Try a highly-rated local restaurant.''\<rparr>]"
  using assms
  by (simp add: get_activities_def call_def activities_of_def try_bind_def static_fallback_def)

theorem get_activities_static_fallback_witness:
  "fst (get_activities svc_paris (\<lambda>v. []) ''PAR'' initial_state)
     = [\<lparr>name = JStr ''Local Exploration'',
          description = JStr ''Explore nearby attractions and sights.''\<rparr>,
        \<lparr>name = JStr ''Dining Experience'',
          description = JStr ''Try a highly-rated local restaurant.''\<rparr>]"
proof -
  have "svc_paris [LocationsGet ''PAR'' ''CITY'' (Some ''FULL'')]
          (ActivitiesGet (JFloat (4885 / 100)) (JFloat (235 / 100))) = Response (JArr [])"
    by (simp add: svc_paris_def)
  with get_activities_static_fallback
         [where svc = svc_paris and destination = "''PAR''" and s = initial_state
            and str_of = "\<lambda>v. []", OF svc_paris_coordinates]
  show ?thesis
    by simp
qed

text \<open>
  Claim C10. For every destination code and every behaviour of the services,
  \<open>get_activities\<close> returns between one and three entries: the loop runs over at most
  three items, and every empty-result or error branch returns a fixed non-empty list.
\<close>

theorem get_activities_length:
  "1 \<le> length (fst (get_activities svc str_of destination s))
   \<and> length (fst (get_activities svc str_of destination s)) \<le> 3"
proof (cases "get_city_coordinates svc destination s")
  case (Pair coords s1)
  show ?thesis
  proof (cases coords)
    case None
    with Pair show ?thesis
      by (simp add: get_activities_def coordinate_error_def)
  next
    case (Some ll)
    obtain latitude longitude where ll: "ll = (latitude, longitude)"
      by (cases ll)
    show ?thesis
    proof (cases "svc (queries s1) (ActivitiesGet latitude longitude)")
      case (Raises e)
      with Pair Some ll activities_except_length [of e] show ?thesis
        by (simp add: get_activities_def call_def)
    next
      case (Response data)
      show ?thesis
      proof (cases "activities_of str_of data")
        case (Inl e)
        with Pair Some ll Response activities_except_length [of e] show ?thesis
          by (simp add: get_activities_def call_def)
      next
        case (Inr l)
        with Pair Some ll Response activities_of_length [OF Inr] show ?thesis
          by (simp add: get_activities_def call_def)
      qed
    qed
  qed
qed

end
